theory Spec2Isabelle
  imports Main "HOL-Library.Word" "HOL-Library.Sublist"
begin

section \<open>Exception kinds\<close>

text \<open>
  The Go source declares the kinds as an untyped \<^verbatim>\<open>iota\<close> block, and
  \<^verbatim>\<open>CheckException\<close> returns them as \<^verbatim>\<open>uint64\<close>. They are the numbers 0 to 16,
  in the order of the \<^verbatim>\<open>const\<close> block of \<^verbatim>\<open>src/experiment/exceptions.go\<close>.
\<close>

type_synonym uint64 = "64 word"

definition NoException :: uint64 where "NoException = 0"
definition ExplicitRevert :: uint64 where "ExplicitRevert = 1"
definition DepositOutOfGas :: uint64 where "DepositOutOfGas = 2"
definition RunOutOfGas :: uint64 where "RunOutOfGas = 3"
definition CallStackOverflow :: uint64 where "CallStackOverflow = 4"
definition DataStackUnderflow :: uint64 where "DataStackUnderflow = 5"
definition DataStackOverflow :: uint64 where "DataStackOverflow = 6"
definition InvalidJumpDestination :: uint64 where "InvalidJumpDestination = 7"
definition InvalidInstruction :: uint64 where "InvalidInstruction = 8"
definition PrecompiledCallError :: uint64 where "PrecompiledCallError = 9"
definition InsufficientBalance :: uint64 where "InsufficientBalance = 10"
definition WritePermissionViolation :: uint64 where "WritePermissionViolation = 11"
definition ReturnDataOutOfBound :: uint64 where "ReturnDataOutOfBound = 12"
definition ContractAddressCollision :: uint64 where "ContractAddressCollision = 13"
definition MaxCodeSizeExceeded :: uint64 where "MaxCodeSizeExceeded = 14"
definition GasUintOverflow :: uint64 where "GasUintOverflow = 15"
definition EmptyCode :: uint64 where "EmptyCode = 16"

section \<open>The regular expressions of the classifier\<close>

text \<open>
  \<^verbatim>\<open>CheckException\<close> compiles four patterns with Go's \<^verbatim>\<open>regexp\<close> package:
  \<^verbatim>\<open>^stack underflow .+$\<close>, \<^verbatim>\<open>^stack limit reached .+$\<close>,
  \<^verbatim>\<open>^invalid jump destination .+$\<close> and \<^verbatim>\<open>^invalid opcode .+$\<close>.
  They use literal characters, the dot, the postfix \<^verbatim>\<open>+\<close> and the two anchors only.
  In Go's syntax (RE2, no flags) \<^verbatim>\<open>^\<close> is the beginning of the text, \<^verbatim>\<open>$\<close> is the
  end of the text, and the dot is any character but the line feed. A Go string is a
  sequence of bytes, here a \<^typ>\<open>string\<close>; a byte that is no valid UTF-8 is read as one
  character (the replacement character) that the dot matches, and a line feed byte is
  never part of a longer UTF-8 sequence, so on bytes the dot is any byte but \<open>0x0A\<close>.

  A pattern between the two anchors is a list of items, each an atom taken once or
  one or more times; \<open>match_here\<close> decides whether the whole text matches it, trying
  both ways at every repetition.
\<close>

datatype atom = Lit char | AnyChar

datatype item = Once atom | OneOrMore atom

type_synonym regexp = "item list"

fun atom_matches :: "atom \<Rightarrow> char \<Rightarrow> bool" where
  "atom_matches (Lit b) c = (c = b)"
| "atom_matches AnyChar c = (c \<noteq> CHR 0x0A)"

fun match_here :: "regexp \<Rightarrow> string \<Rightarrow> bool" where
  "match_here [] s = (s = [])"
| "match_here (Once a # r) [] = False"
| "match_here (Once a # r) (c # s) = (atom_matches a c \<and> match_here r s)"
| "match_here (OneOrMore a # r) [] = False"
| "match_here (OneOrMore a # r) (c # s) =
     (atom_matches a c \<and> (match_here (OneOrMore a # r) s \<or> match_here r s))"

definition literal :: "string \<Rightarrow> regexp" where
  "literal p = map (\<lambda>b. Once (Lit b)) p"

text \<open>The four compiled patterns: each is a literal text, then \<^verbatim>\<open>.+\<close>.\<close>

definition re_stack_underflow :: regexp where
  "re_stack_underflow = literal ''stack underflow '' @ [OneOrMore AnyChar]"

definition re_stack_limit_reached :: regexp where
  "re_stack_limit_reached = literal ''stack limit reached '' @ [OneOrMore AnyChar]"

definition re_invalid_jump_destination :: regexp where
  "re_invalid_jump_destination = literal ''invalid jump destination '' @ [OneOrMore AnyChar]"

definition re_invalid_opcode :: regexp where
  "re_invalid_opcode = literal ''invalid opcode '' @ [OneOrMore AnyChar]"

text \<open>
  \<^verbatim>\<open>FindAllString(s, -1)\<close> returns the successive matches of the pattern in \<open>s\<close>.
  A pattern anchored at both ends matches at most once, and then the whole of \<open>s\<close>.
\<close>

definition FindAllString :: "regexp \<Rightarrow> string \<Rightarrow> string list" where
  "FindAllString re s = (if match_here re s then [s] else [])"

section \<open>The classifier\<close>

text \<open>
  A Go \<^verbatim>\<open>error\<close> is \<^verbatim>\<open>nil\<close> or a value whose \<^verbatim>\<open>Error()\<close> method gives its
  message: \<open>None\<close> or \<open>Some msg\<close>. The \<^verbatim>\<open>switch\<close> has no tag, so its cases are
  tried from the top and the first true one returns.
\<close>

type_synonym error = "string option"

definition CheckException :: "error \<Rightarrow> string \<times> uint64" where
  "CheckException err =
     (case err of
        None \<Rightarrow> ([], NoException)
      | Some msg \<Rightarrow>
          if msg = ''evm: execution reverted'' then (msg, ExplicitRevert)
          else if msg = ''contract creation code storage out of gas'' then (msg, DepositOutOfGas)
          else if msg = ''out of gas'' then (msg, RunOutOfGas)
          else if msg = ''max call depth exceeded'' then (msg, CallStackOverflow)
          else if length (FindAllString re_stack_underflow msg) > 0
            then (msg, DataStackUnderflow)
          else if length (FindAllString re_stack_limit_reached msg) > 0
            then (msg, DataStackOverflow)
          else if length (FindAllString re_invalid_jump_destination msg) > 0
            then (msg, InvalidJumpDestination)
          else if length (FindAllString re_invalid_opcode msg) > 0
            then (msg, InvalidInstruction)
          else if msg = ''insufficient balance for transfer'' then (msg, InsufficientBalance)
          else if msg = ''evm: write protection'' then (msg, WritePermissionViolation)
          else if msg = ''evm: return data out of bounds'' then (msg, ReturnDataOutOfBound)
          else if msg = ''contract address collision'' then (msg, ContractAddressCollision)
          else if msg = ''evm: max code size exceeded'' then (msg, MaxCodeSizeExceeded)
          else if msg = ''gas uint64 overflow'' then (msg, GasUintOverflow)
          else if msg = ''empty call code'' then (msg, EmptyCode)
          else (msg, PrecompiledCallError))"

text \<open>
  The same rules in the precedence that section 4.1 of the specification gives them:
  the eleven exact comparisons first, in the specification's order, then the four
  patterns, then the default. It is compared with \<open>CheckException\<close> below.
\<close>

definition Classify_exact_first :: "error \<Rightarrow> string \<times> uint64" where
  "Classify_exact_first err =
     (case err of
        None \<Rightarrow> ([], NoException)
      | Some msg \<Rightarrow>
          if msg = ''evm: execution reverted'' then (msg, ExplicitRevert)
          else if msg = ''contract creation code storage out of gas'' then (msg, DepositOutOfGas)
          else if msg = ''out of gas'' then (msg, RunOutOfGas)
          else if msg = ''max call depth exceeded'' then (msg, CallStackOverflow)
          else if msg = ''insufficient balance for transfer'' then (msg, InsufficientBalance)
          else if msg = ''evm: write protection'' then (msg, WritePermissionViolation)
          else if msg = ''evm: return data out of bounds'' then (msg, ReturnDataOutOfBound)
          else if msg = ''contract address collision'' then (msg, ContractAddressCollision)
          else if msg = ''evm: max code size exceeded'' then (msg, MaxCodeSizeExceeded)
          else if msg = ''gas uint64 overflow'' then (msg, GasUintOverflow)
          else if msg = ''empty call code'' then (msg, EmptyCode)
          else if length (FindAllString re_stack_underflow msg) > 0
            then (msg, DataStackUnderflow)
          else if length (FindAllString re_stack_limit_reached msg) > 0
            then (msg, DataStackOverflow)
          else if length (FindAllString re_invalid_jump_destination msg) > 0
            then (msg, InvalidJumpDestination)
          else if length (FindAllString re_invalid_opcode msg) > 0
            then (msg, InvalidInstruction)
          else (msg, PrecompiledCallError))"

text \<open>The seventeen kinds of the \<^verbatim>\<open>const\<close> block, in order.\<close>

definition kinds :: "uint64 list" where
  "kinds =
     [NoException, ExplicitRevert, DepositOutOfGas, RunOutOfGas, CallStackOverflow,
      DataStackUnderflow, DataStackOverflow, InvalidJumpDestination, InvalidInstruction,
      PrecompiledCallError, InsufficientBalance, WritePermissionViolation,
      ReturnDataOutOfBound, ContractAddressCollision, MaxCodeSizeExceeded,
      GasUintOverflow, EmptyCode]"

section \<open>Transaction records and traces\<close>

text \<open>
  The structs of \<^verbatim>\<open>src/experiment/exceptions.go\<close>. \<^verbatim>\<open>Trace\<close> and
  \<^verbatim>\<open>ExceptionalTx\<close> share field names; where both are in scope the field is written
  with its record (\<open>Trace.StatusCode\<close>, \<open>ExceptionalTx.StatusCode\<close>).

  A \<^verbatim>\<open>*OneStep\<close> is \<^verbatim>\<open>nil\<close> or points to a step. No function here writes to a
  step, so a step pointer is the step itself or \<open>None\<close>. A \<^verbatim>\<open>*Trace\<close> is written
  through (\<^verbatim>\<open>ReleaseInternal\<close> clears the steps of the trace it points to), and a
  slice may hold one pointer twice: traces live in a heap of cells, and a trace pointer
  is \<open>None\<close> or the address of a cell. A slice is the list of its elements; every
  slice owns its array, as the slices these functions make do.
\<close>

record OneStep =
  StepNum :: uint64
  PC :: uint64
  Ins :: string
  RemainingGas :: uint64

record Trace =
  CallStackDepth :: uint64
  From :: string
  To :: string
  Value :: string
  Input :: string
  GasLimit :: uint64
  GasPrice :: string
  StatusCode :: uint64
  ErrorMsg :: string
  ErrorCode :: uint64
  Steps :: "OneStep option list"
  TraceDocID :: string

type_synonym addr = nat

type_synonym trace_ptr = "addr option"

text \<open>
  The last variant of the package in \<^verbatim>\<open>src/unnamed/part_000\<close> (lines 398 to 447)
  keeps no steps: its \<^verbatim>\<open>Trace\<close> has no \<^verbatim>\<open>Steps\<close>, and its record is this
  \<^verbatim>\<open>Transaction\<close>. It is declared before \<open>ExceptionalTx\<close>, so that a field name
  written alone is the field of \<open>ExceptionalTx\<close>.
\<close>

record Transaction =
  BlockNum :: "32 word"
  TxIndex :: "16 word"
  Nonce :: uint64
  TxHash :: string
  From :: string
  To :: string
  Value :: string
  GasLimit :: "32 word"
  GasPrice :: string
  GasUsed :: "32 word"
  StatusCode :: "8 word"
  NumSteps :: "32 word"
  HasException :: bool
  Traces :: "trace_ptr list"

record ExceptionalTx =
  BlockNum :: uint64
  TxIndex :: uint64
  Nonce :: uint64
  TxHash :: string
  From :: string
  To :: string
  Value :: string
  Input :: string
  GasLimit :: uint64
  GasPrice :: string
  CreateAddress :: string
  StatusCode :: uint64
  NumSteps :: uint64
  HasException :: bool
  Traces :: "trace_ptr list"

text \<open>
  The heap of traces: the cells below \<open>nxt\<close> are allocated, and \<^verbatim>\<open>new(Trace)\<close>
  takes the cell at \<open>nxt\<close>, zeroed, so that it differs from every trace allocated
  before.
\<close>

record heap =
  cells :: "addr \<Rightarrow> Trace"
  nxt :: addr

definition zero_Trace :: Trace where
  "zero_Trace =
     \<lparr>CallStackDepth = 0, Trace.From = [], Trace.To = [], Trace.Value = [],
      Trace.Input = [], Trace.GasLimit = 0, Trace.GasPrice = [], Trace.StatusCode = 0,
      ErrorMsg = [], ErrorCode = 0, Steps = [], TraceDocID = []\<rparr>"

definition zero_ExceptionalTx :: ExceptionalTx where
  "zero_ExceptionalTx =
     \<lparr>BlockNum = 0, TxIndex = 0, Nonce = 0, TxHash = [], ExceptionalTx.From = [],
      ExceptionalTx.To = [], ExceptionalTx.Value = [], ExceptionalTx.Input = [],
      ExceptionalTx.GasLimit = 0, ExceptionalTx.GasPrice = [], CreateAddress = [],
      ExceptionalTx.StatusCode = 0, NumSteps = 0, HasException = False, Traces = []\<rparr>"

definition empty_heap :: heap where
  "empty_heap = \<lparr>cells = (\<lambda>a. zero_Trace), nxt = 0\<rparr>"

definition new_Trace :: "heap \<Rightarrow> addr \<times> heap" where
  "new_Trace h = (nxt h, h\<lparr>cells := (cells h)(nxt h := zero_Trace), nxt := Suc (nxt h)\<rparr>)"

text \<open>
  \<^verbatim>\<open>NewTxRecord\<close>: a zeroed record whose \<^verbatim>\<open>Traces\<close> is the slice
  \<^verbatim>\<open>make([]*Trace, 0)\<close>.
\<close>

definition NewTxRecord :: ExceptionalTx where
  "NewTxRecord = zero_ExceptionalTx\<lparr>Traces := []\<rparr>"

text \<open>
  \<^verbatim>\<open>NewTrace\<close>: the receiver is the record \<open>tx\<close>; the result is the new pointer
  with the record and the heap as the call leaves them.
\<close>

definition NewTrace :: "ExceptionalTx \<Rightarrow> heap \<Rightarrow> addr \<times> ExceptionalTx \<times> heap" where
  "NewTrace tx h =
     (let (trace, h1) = new_Trace h;
          h2 = h1\<lparr>cells := (cells h1)(trace := (cells h1 trace)\<lparr>Steps := []\<rparr>)\<rparr>;
          tx' = tx\<lparr>Traces := Traces tx @ [Some trace]\<rparr>
      in (trace, tx', h2))"

text \<open>
  \<^verbatim>\<open>ReleaseInternal\<close> of a trace: \<^verbatim>\<open>for i := range t.Steps { t.Steps[i] = nil }\<close>.
  The length is read once and every index is in range. Reading \<^verbatim>\<open>t.Steps\<close> through
  a \<^verbatim>\<open>nil\<close> receiver is a run-time panic.
\<close>

datatype panic = NilPointerDereference

definition nil_steps :: "OneStep option list \<Rightarrow> OneStep option list" where
  "nil_steps steps = fold (\<lambda>i xs. xs[i := None]) [0..<length steps] steps"

definition Trace_ReleaseInternal :: "trace_ptr \<Rightarrow> heap \<Rightarrow> panic + heap" where
  "Trace_ReleaseInternal t h =
     (case t of
        None \<Rightarrow> Inl NilPointerDereference
      | Some a \<Rightarrow>
          Inr (h\<lparr>cells := (cells h)(a := (cells h a)\<lparr>Steps := nil_steps (Steps (cells h a))\<rparr>)\<rparr>))"

text \<open>
  \<^verbatim>\<open>ReleaseInternal\<close> of a record:
  \<^verbatim>\<open>for i, p := range tx.Traces { p.ReleaseInternal(); tx.Traces[i] = nil }\<close>.
  The loop runs over the indices of the slice as it is when the loop starts; \<open>p\<close> is
  the element at \<open>i\<close> when the iteration starts. A panic ends the call.
\<close>

fun release_loop :: "nat list \<Rightarrow> ExceptionalTx \<Rightarrow> heap \<Rightarrow> panic + (ExceptionalTx \<times> heap)" where
  "release_loop [] tx h = Inr (tx, h)"
| "release_loop (i # js) tx h =
     (case Trace_ReleaseInternal (Traces tx ! i) h of
        Inl e \<Rightarrow> Inl e
      | Inr h' \<Rightarrow> release_loop js (tx\<lparr>Traces := (Traces tx)[i := None]\<rparr>) h')"

definition ReleaseInternal :: "ExceptionalTx \<Rightarrow> heap \<Rightarrow> panic + (ExceptionalTx \<times> heap)" where
  "ReleaseInternal tx h = release_loop [0..<length (Traces tx)] tx h"

text \<open>
  \<^verbatim>\<open>ReleaseInternal\<close> of the variant without steps:
  \<^verbatim>\<open>for i := range tx.Traces { tx.Traces[i] = nil }\<close>. It calls no method and
  reads through no pointer.
\<close>

definition Transaction_ReleaseInternal :: "Transaction \<Rightarrow> Transaction" where
  "Transaction_ReleaseInternal tx =
     tx\<lparr>Transaction.Traces :=
        fold (\<lambda>i xs. xs[i := None]) [0..<length (Transaction.Traces tx)] (Transaction.Traces tx)\<rparr>"

text \<open>
  Every trace pointer of the record is allocated. Go has no other pointers; the
  predicate says so of a record and a heap of the model.
\<close>

definition allocated :: "ExceptionalTx \<Rightarrow> heap \<Rightarrow> bool" where
  "allocated tx h = list_all (\<lambda>p. case p of None \<Rightarrow> True | Some a \<Rightarrow> a < nxt h) (Traces tx)"

subsection \<open>Sealing a record\<close>

text \<open>
  The code that finishes a record (it sets \<^verbatim>\<open>NumSteps\<close> and \<^verbatim>\<open>HasException\<close>) is
  not in \<^verbatim>\<open>src/\<close>, which declares the two fields only. The definitions of this
  subsection follow the specification instead.

  The nodes of a record are the traces its non-nil pointers point to, in order.
\<close>

definition nodes :: "ExceptionalTx \<Rightarrow> heap \<Rightarrow> Trace list" where
  "nodes tx h = [cells h a. Some a \<leftarrow> Traces tx]"

text \<open>
  Modelled from the spec: the test of section 3 that a trace node of the record has a
  kind other than \<open>NoException\<close> (the code that computes it is not in \<^verbatim>\<open>src/\<close>).
\<close>

fun any_exception :: "Trace list \<Rightarrow> bool" where
  "any_exception [] = False"
| "any_exception (t # ts) = (if ErrorCode t \<noteq> NoException then True else any_exception ts)"

text \<open>
  Modelled from the spec: the total step count across all nodes of section 3 (the code
  that computes it is not in \<^verbatim>\<open>src/\<close>), in the \<^verbatim>\<open>uint64\<close> of the field.
\<close>

fun count_steps :: "Trace list \<Rightarrow> uint64" where
  "count_steps [] = 0"
| "count_steps (t # ts) = of_nat (length (Steps t)) + count_steps ts"

text \<open>
  Modelled from the spec: \<^verbatim>\<open>Seal\<close> of section 4.3, which is not in \<^verbatim>\<open>src/\<close>. It
  computes the total step count, computes the flag and returns the finished record. By
  section 3 the flag is true if the external status failed or any trace node has a kind
  other than \<open>NoException\<close>. The specification does not say which status codes are
  failures: the test \<open>failed\<close> is a parameter.
\<close>

definition Seal :: "(uint64 \<Rightarrow> bool) \<Rightarrow> ExceptionalTx \<Rightarrow> heap \<Rightarrow> ExceptionalTx" where
  "Seal failed tx h =
     tx\<lparr>NumSteps := count_steps (nodes tx h),
        HasException := (failed (ExceptionalTx.StatusCode tx) \<or> any_exception (nodes tx h))\<rparr>"

section \<open>What the patterns match\<close>

lemmas kind_defs =
  NoException_def ExplicitRevert_def DepositOutOfGas_def RunOutOfGas_def
  CallStackOverflow_def DataStackUnderflow_def DataStackOverflow_def
  InvalidJumpDestination_def InvalidInstruction_def PrecompiledCallError_def
  InsufficientBalance_def WritePermissionViolation_def ReturnDataOutOfBound_def
  ContractAddressCollision_def MaxCodeSizeExceeded_def GasUintOverflow_def EmptyCode_def

lemmas pattern_defs =
  re_stack_underflow_def re_stack_limit_reached_def
  re_invalid_jump_destination_def re_invalid_opcode_def

lemma match_any_plus:
  "match_here [OneOrMore AnyChar] s \<longleftrightarrow> s \<noteq> [] \<and> CHR 0x0A \<notin> set s"
proof (induction s)
  case Nil
  show ?case by simp
next
  case (Cons c s)
  show ?case
  proof (cases s)
    case Nil
    then show ?thesis by auto
  next
    case (Cons d t)
    with Cons.IH show ?thesis by auto
  qed
qed

lemma match_literal:
  "match_here (literal p @ r) s \<longleftrightarrow> (\<exists>t. s = p @ t \<and> match_here r t)"
proof (induction p arbitrary: s)
  case Nil
  show ?case by (simp add: literal_def)
next
  case (Cons b p)
  have step: "match_here (literal (b # p) @ r) s
      \<longleftrightarrow> (\<exists>s'. s = b # s' \<and> match_here (literal p @ r) s')"
    by (cases s) (auto simp: literal_def)
  show ?case unfolding step Cons.IH by auto
qed

lemma found_iff:
  "length (FindAllString (literal p @ [OneOrMore AnyChar]) s) > 0
    \<longleftrightarrow> (\<exists>t. s = p @ t \<and> t \<noteq> [] \<and> CHR 0x0A \<notin> set t)"
  by (simp add: FindAllString_def match_literal match_any_plus)

lemma found_prefix:
  "length (FindAllString (literal p @ [OneOrMore AnyChar]) s) > 0 \<Longrightarrow> prefix p s"
  unfolding found_iff by (auto simp: prefix_def)

lemma not_found_if_no_prefix:
  assumes "\<not> prefix p msg" and "prefix p q"
  shows "FindAllString (literal q @ [OneOrMore AnyChar]) msg = []"
proof -
  have "\<not> prefix q msg"
    using assms prefix_order.trans [of p q msg] by blast
  then have "\<not> length (FindAllString (literal q @ [OneOrMore AnyChar]) msg) > 0"
    using found_prefix [of q msg] by blast
  then show ?thesis by simp
qed

lemma no_prefix_no_match:
  "\<not> prefix ''stack underflow'' msg \<Longrightarrow> FindAllString re_stack_underflow msg = []"
  "\<not> prefix ''stack limit reached'' msg \<Longrightarrow> FindAllString re_stack_limit_reached msg = []"
  "\<not> prefix ''invalid jump destination'' msg \<Longrightarrow>
     FindAllString re_invalid_jump_destination msg = []"
  "\<not> prefix ''invalid opcode'' msg \<Longrightarrow> FindAllString re_invalid_opcode msg = []"
  unfolding pattern_defs by (erule not_found_if_no_prefix, simp)+

text \<open>None of the seven messages compared after the patterns matches a pattern.\<close>

lemma late_exact_no_pattern:
  assumes "msg \<in> {''insufficient balance for transfer'', ''evm: write protection'',
     ''evm: return data out of bounds'', ''contract address collision'',
     ''evm: max code size exceeded'', ''gas uint64 overflow'', ''empty call code''}"
  shows "FindAllString re_stack_underflow msg = []
       \<and> FindAllString re_stack_limit_reached msg = []
       \<and> FindAllString re_invalid_jump_destination msg = []
       \<and> FindAllString re_invalid_opcode msg = []"
  using assms by (auto simp: FindAllString_def pattern_defs literal_def)

lemma default_rule:
  assumes "msg \<notin> {''evm: execution reverted'', ''contract creation code storage out of gas'',
       ''out of gas'', ''max call depth exceeded'', ''insufficient balance for transfer'',
       ''evm: write protection'', ''evm: return data out of bounds'',
       ''contract address collision'', ''evm: max code size exceeded'',
       ''gas uint64 overflow'', ''empty call code''}"
    and "FindAllString re_stack_underflow msg = []"
    and "FindAllString re_stack_limit_reached msg = []"
    and "FindAllString re_invalid_jump_destination msg = []"
    and "FindAllString re_invalid_opcode msg = []"
  shows "CheckException (Some msg) = (msg, PrecompiledCallError)"
  using assms by (simp add: CheckException_def)

lemma kind_NoException_iff: "snd (CheckException err) = NoException \<longleftrightarrow> err = None"
  by (simp add: CheckException_def kind_defs split: option.split)

lemma message_of_signal:
  "fst (CheckException err) = (case err of None \<Rightarrow> [] | Some msg \<Rightarrow> msg)"
  by (simp add: CheckException_def split: option.split)

lemma exact_rules:
  "CheckException (Some ''evm: execution reverted'') =
      (''evm: execution reverted'', ExplicitRevert)
    \<and> CheckException (Some ''contract creation code storage out of gas'') =
      (''contract creation code storage out of gas'', DepositOutOfGas)
    \<and> CheckException (Some ''out of gas'') = (''out of gas'', RunOutOfGas)
    \<and> CheckException (Some ''max call depth exceeded'') =
      (''max call depth exceeded'', CallStackOverflow)
    \<and> CheckException (Some ''insufficient balance for transfer'') =
      (''insufficient balance for transfer'', InsufficientBalance)
    \<and> CheckException (Some ''evm: write protection'') =
      (''evm: write protection'', WritePermissionViolation)
    \<and> CheckException (Some ''evm: return data out of bounds'') =
      (''evm: return data out of bounds'', ReturnDataOutOfBound)
    \<and> CheckException (Some ''contract address collision'') =
      (''contract address collision'', ContractAddressCollision)
    \<and> CheckException (Some ''evm: max code size exceeded'') =
      (''evm: max code size exceeded'', MaxCodeSizeExceeded)
    \<and> CheckException (Some ''gas uint64 overflow'') = (''gas uint64 overflow'', GasUintOverflow)
    \<and> CheckException (Some ''empty call code'') = (''empty call code'', EmptyCode)"
  by (simp add: CheckException_def FindAllString_def pattern_defs literal_def)

lemma kind_in_kinds: "snd (CheckException err) \<in> set kinds"
  by (simp add: CheckException_def kinds_def split: option.split)

text \<open>
  Which messages get the kind of a pattern: exactly those made of the pattern's text (the
  prefix and a space) and a non-empty detail without a line feed.
\<close>

lemma pattern_kind_iff:
  "snd (CheckException (Some msg)) = DataStackUnderflow \<longleftrightarrow>
     (\<exists>d. msg = ''stack underflow '' @ d \<and> d \<noteq> [] \<and> CHR 0x0A \<notin> set d)"
  "snd (CheckException (Some msg)) = DataStackOverflow \<longleftrightarrow>
     (\<exists>d. msg = ''stack limit reached '' @ d \<and> d \<noteq> [] \<and> CHR 0x0A \<notin> set d)"
  "snd (CheckException (Some msg)) = InvalidJumpDestination \<longleftrightarrow>
     (\<exists>d. msg = ''invalid jump destination '' @ d \<and> d \<noteq> [] \<and> CHR 0x0A \<notin> set d)"
  "snd (CheckException (Some msg)) = InvalidInstruction \<longleftrightarrow>
     (\<exists>d. msg = ''invalid opcode '' @ d \<and> d \<noteq> [] \<and> CHR 0x0A \<notin> set d)"
  unfolding CheckException_def pattern_defs found_iff
  by (auto simp: kind_defs)

section \<open>Properties of the classifier\<close>

text \<open>
  C1. \<open>CheckException\<close> returns, for each of the eleven recognized messages, the
  message and the kind paired with it; for every other non-nil signal that matches none
  of the four patterns (in particular one that begins with none of the four prefixes)
  it returns the kind \<open>PrecompiledCallError\<close>; and whatever the signal, the kind it
  returns is one of the seventeen kinds.
\<close>

theorem CheckException_classifies:
  "(CheckException (Some ''evm: execution reverted'') =
      (''evm: execution reverted'', ExplicitRevert)
    \<and> CheckException (Some ''contract creation code storage out of gas'') =
      (''contract creation code storage out of gas'', DepositOutOfGas)
    \<and> CheckException (Some ''out of gas'') = (''out of gas'', RunOutOfGas)
    \<and> CheckException (Some ''max call depth exceeded'') =
      (''max call depth exceeded'', CallStackOverflow)
    \<and> CheckException (Some ''insufficient balance for transfer'') =
      (''insufficient balance for transfer'', InsufficientBalance)
    \<and> CheckException (Some ''evm: write protection'') =
      (''evm: write protection'', WritePermissionViolation)
    \<and> CheckException (Some ''evm: return data out of bounds'') =
      (''evm: return data out of bounds'', ReturnDataOutOfBound)
    \<and> CheckException (Some ''contract address collision'') =
      (''contract address collision'', ContractAddressCollision)
    \<and> CheckException (Some ''evm: max code size exceeded'') =
      (''evm: max code size exceeded'', MaxCodeSizeExceeded)
    \<and> CheckException (Some ''gas uint64 overflow'') = (''gas uint64 overflow'', GasUintOverflow)
    \<and> CheckException (Some ''empty call code'') = (''empty call code'', EmptyCode))
   \<and> (\<forall>msg.
        msg \<notin> {''evm: execution reverted'', ''contract creation code storage out of gas'',
          ''out of gas'', ''max call depth exceeded'', ''insufficient balance for transfer'',
          ''evm: write protection'', ''evm: return data out of bounds'',
          ''contract address collision'', ''evm: max code size exceeded'',
          ''gas uint64 overflow'', ''empty call code''}
        \<and> FindAllString re_stack_underflow msg = []
        \<and> FindAllString re_stack_limit_reached msg = []
        \<and> FindAllString re_invalid_jump_destination msg = []
        \<and> FindAllString re_invalid_opcode msg = []
        \<longrightarrow> CheckException (Some msg) = (msg, PrecompiledCallError))
   \<and> (\<forall>msg.
        msg \<notin> {''evm: execution reverted'', ''contract creation code storage out of gas'',
          ''out of gas'', ''max call depth exceeded'', ''insufficient balance for transfer'',
          ''evm: write protection'', ''evm: return data out of bounds'',
          ''contract address collision'', ''evm: max code size exceeded'',
          ''gas uint64 overflow'', ''empty call code''}
        \<and> \<not> prefix ''stack underflow'' msg
        \<and> \<not> prefix ''stack limit reached'' msg
        \<and> \<not> prefix ''invalid jump destination'' msg
        \<and> \<not> prefix ''invalid opcode'' msg
        \<longrightarrow> CheckException (Some msg) = (msg, PrecompiledCallError))
   \<and> (\<forall>err. snd (CheckException err) \<in> set kinds)"
  (is "?exact \<and> ?default \<and> ?default_prefix \<and> ?total")
proof -
  have d: ?default
    by (intro allI impI, elim conjE, rule default_rule)
  have p: ?default_prefix
    by (intro allI impI, elim conjE, rule default_rule, assumption)
      (erule no_prefix_no_match)+
  have t: ?total
    by (rule allI, rule kind_in_kinds)
  show ?thesis
    by (rule conjI [OF exact_rules conjI [OF d conjI [OF p t]]])
qed

theorem CheckException_classifies_witness:
  "CheckException (Some ''unexpected precompile failure xyz'') =
     (''unexpected precompile failure xyz'', PrecompiledCallError)
   \<and> \<not> prefix ''stack underflow'' ''unexpected precompile failure xyz''
   \<and> FindAllString re_invalid_opcode ''unexpected precompile failure xyz'' = []
   \<and> snd (CheckException (Some ''out of gas'')) \<in> set kinds"
proof -
  let ?m = "''unexpected precompile failure xyz''"
  note by_prefix =
    CheckException_classifies [THEN conjunct2, THEN conjunct2, THEN conjunct1, rule_format, of ?m]
  note total =
    CheckException_classifies [THEN conjunct2, THEN conjunct2, THEN conjunct2, rule_format,
      of "Some ''out of gas''"]
  have "CheckException (Some ?m) = (?m, PrecompiledCallError)"
    by (rule by_prefix) simp
  moreover have "FindAllString re_invalid_opcode ?m = []"
    by (simp add: FindAllString_def pattern_defs literal_def)
  ultimately show ?thesis using total by simp
qed

text \<open>
  C2, as the code has it. The four patterns are \<^verbatim>\<open>^stack underflow .+$\<close> and its
  like: after the prefix they ask for a space and then at least one character, none of
  them a line feed. For every message made of \<open>stack underflow\<close>, a space and such a
  detail, \<open>CheckException\<close> returns the kind \<open>DataStackUnderflow\<close>; likewise
  \<open>stack limit reached\<close> gives \<open>DataStackOverflow\<close>, \<open>invalid jump destination\<close>
  gives \<open>InvalidJumpDestination\<close> and \<open>invalid opcode\<close> gives
  \<open>InvalidInstruction\<close>.
\<close>

theorem CheckException_pattern_rules:
  assumes "detail \<noteq> []" and "CHR 0x0A \<notin> set detail"
  shows "CheckException (Some (''stack underflow '' @ detail)) =
           (''stack underflow '' @ detail, DataStackUnderflow)
       \<and> CheckException (Some (''stack limit reached '' @ detail)) =
           (''stack limit reached '' @ detail, DataStackOverflow)
       \<and> CheckException (Some (''invalid jump destination '' @ detail)) =
           (''invalid jump destination '' @ detail, InvalidJumpDestination)
       \<and> CheckException (Some (''invalid opcode '' @ detail)) =
           (''invalid opcode '' @ detail, InvalidInstruction)"
proof (intro conjI)
  show "CheckException (Some (''stack underflow '' @ detail)) =
           (''stack underflow '' @ detail, DataStackUnderflow)"
    using assms unfolding CheckException_def pattern_defs found_iff by simp
  show "CheckException (Some (''stack limit reached '' @ detail)) =
           (''stack limit reached '' @ detail, DataStackOverflow)"
    using assms unfolding CheckException_def pattern_defs found_iff by simp
  show "CheckException (Some (''invalid jump destination '' @ detail)) =
           (''invalid jump destination '' @ detail, InvalidJumpDestination)"
    using assms unfolding CheckException_def pattern_defs found_iff by simp
  show "CheckException (Some (''invalid opcode '' @ detail)) =
           (''invalid opcode '' @ detail, InvalidInstruction)"
    using assms unfolding CheckException_def pattern_defs found_iff by simp
qed

theorem CheckException_pattern_rules_witness:
  "CheckException (Some ''stack underflow at pc=12'') =
     (''stack underflow at pc=12'', DataStackUnderflow)
   \<and> CheckException (Some ''invalid opcode at pc=12'') =
     (''invalid opcode at pc=12'', InvalidInstruction)"
proof -
  have "''at pc=12'' \<noteq> []" and "CHR 0x0A \<notin> set ''at pc=12''"
    by simp_all
  from CheckException_pattern_rules [OF this] show ?thesis by simp
qed

text \<open>
  The claim C2 as it is written fails: a message that begins with a prefix and goes on
  without the space, or stops at the prefix, or holds a line feed in its detail, matches
  no pattern and falls to the default.
\<close>

theorem CheckException_prefix_counterexample:
  "prefix ''invalid opcode'' ''invalid opcode: 0xfe''
   \<and> CheckException (Some ''invalid opcode: 0xfe'') =
       (''invalid opcode: 0xfe'', PrecompiledCallError)
   \<and> prefix ''stack underflow'' ''stack underflow''
   \<and> CheckException (Some ''stack underflow'') = (''stack underflow'', PrecompiledCallError)
   \<and> PrecompiledCallError \<noteq> InvalidInstruction
   \<and> PrecompiledCallError \<noteq> DataStackUnderflow"
  by (simp add: CheckException_def FindAllString_def pattern_defs literal_def kind_defs)

text \<open>
  C3. The order of the exact comparisons and the patterns does not matter: with the
  eleven exact comparisons before the four patterns, as the specification orders them,
  the rules return on every signal the pair that \<open>CheckException\<close> returns.
\<close>

theorem Classify_exact_first_eq_CheckException:
  "Classify_exact_first err = CheckException err"
proof (cases err)
  case None
  then show ?thesis by (simp add: Classify_exact_first_def CheckException_def)
next
  case (Some msg)
  show ?thesis
  proof (cases "msg \<in> {''insufficient balance for transfer'', ''evm: write protection'',
     ''evm: return data out of bounds'', ''contract address collision'',
     ''evm: max code size exceeded'', ''gas uint64 overflow'', ''empty call code''}")
    case True
    note np = late_exact_no_pattern [OF True]
    show ?thesis unfolding Some Classify_exact_first_def CheckException_def
      by (simp add: np)
  next
    case False
    then show ?thesis unfolding Some Classify_exact_first_def CheckException_def
      by simp
  qed
qed

text \<open>
  C4, as the code has it. \<open>CheckException\<close> returns the kind \<open>NoException\<close> for the
  nil signal and for no other; the message it returns is non-empty exactly when the
  signal is not nil and its own message is non-empty. So for every input but the non-nil
  signal with the empty message, the message is non-empty if and only if the kind is not
  \<open>NoException\<close>; and the kind \<open>NoException\<close> always comes with the empty message.
\<close>

theorem CheckException_message_kind:
  "(snd (CheckException err) = NoException \<longleftrightarrow> err = None)
   \<and> (fst (CheckException err) \<noteq> [] \<longleftrightarrow> (\<exists>msg. err = Some msg \<and> msg \<noteq> []))
   \<and> (err \<noteq> Some [] \<longrightarrow>
        (fst (CheckException err) \<noteq> [] \<longleftrightarrow> snd (CheckException err) \<noteq> NoException))
   \<and> (snd (CheckException err) = NoException \<longrightarrow> fst (CheckException err) = [])"
  unfolding kind_NoException_iff message_of_signal by (cases err) auto

theorem CheckException_message_kind_witness:
  "Some ''out of gas'' \<noteq> Some []
   \<and> fst (CheckException (Some ''out of gas'')) \<noteq> []
   \<and> snd (CheckException (Some ''out of gas'')) \<noteq> NoException
   \<and> fst (CheckException None) = []
   \<and> snd (CheckException None) = NoException"
  using CheckException_message_kind [of "Some ''out of gas''"]
    CheckException_message_kind [of None]
  by simp

text \<open>
  The claim C4 as it is written fails at the non-nil signal whose message is empty (Go's
  \<^verbatim>\<open>errors.New("")\<close>): the message returned is empty and the kind is
  \<open>PrecompiledCallError\<close>.
\<close>

theorem CheckException_empty_message_counterexample:
  "\<not> (fst (CheckException (Some [])) \<noteq> [] \<longleftrightarrow> snd (CheckException (Some [])) \<noteq> NoException)
   \<and> CheckException (Some []) = ([], PrecompiledCallError)"
  by (simp add: CheckException_def FindAllString_def pattern_defs literal_def kind_defs)

text \<open>
  C5. For a nil failure signal \<open>CheckException\<close> returns the empty message and the
  kind \<open>NoException\<close>, which is the code 0. The \<^verbatim>\<open>nil\<close> test returns before the
  \<^verbatim>\<open>switch\<close>: the \<open>None\<close> branch of the definition holds no rule.
\<close>

theorem CheckException_nil:
  "CheckException None = ([], NoException) \<and> NoException = 0"
  by (simp add: CheckException_def NoException_def)

text \<open>
  C9. For every non-nil failure signal the message that \<open>CheckException\<close> returns is
  the signal's own message, byte for byte, whatever the kind.
\<close>

theorem CheckException_message_verbatim:
  "fst (CheckException (Some msg)) = msg"
  by (simp add: CheckException_def)

section \<open>Properties of records and traces\<close>

subsection \<open>The two loops\<close>

lemma fold_nil_length:
  "length (fold (\<lambda>i xs. xs[i := None]) js xs) = length xs"
  by (induction js arbitrary: xs) auto

lemma fold_nil_nth:
  "j < length xs \<Longrightarrow>
   fold (\<lambda>i xs. xs[i := None]) js xs ! j = (if j \<in> set js then None else xs ! j)"
  by (induction js arbitrary: xs) (auto simp: nth_list_update fold_nil_length)

lemma nil_steps_eq: "nil_steps steps = replicate (length steps) None"
  by (rule nth_equalityI) (simp_all add: nil_steps_def fold_nil_length fold_nil_nth)

text \<open>The variant without steps clears every record, nil pointers or not.\<close>

lemma Transaction_ReleaseInternal_clears:
  "Transaction_ReleaseInternal tx =
     tx\<lparr>Transaction.Traces := replicate (length (Transaction.Traces tx)) None\<rparr>"
proof -
  have "fold (\<lambda>i xs. xs[i := None]) [0..<length ps] ps = replicate (length ps) None"
    for ps :: "trace_ptr list"
    by (rule nth_equalityI) (simp_all add: fold_nil_length fold_nil_nth)
  then show ?thesis by (simp add: Transaction_ReleaseInternal_def)
qed

text \<open>
  The loop of a record over a slice whose elements from \<open>length xs\<close> on are not nil:
  it ends without a panic, with those elements nil and the traces they point to
  released one after the other (\<open>clr\<close> is what releasing one trace does to the heap).
\<close>

lemma release_loop_run:
  assumes clr: "\<And>a h. Trace_ReleaseInternal (Some a) h = Inr (clr a h)"
    and tr: "Traces tx = xs @ map Some as"
  shows "release_loop [length xs..<length xs + length as] tx h =
     Inr (tx\<lparr>Traces := xs @ replicate (length as) None\<rparr>, fold clr as h)"
  using tr
proof (induction as arbitrary: xs tx h)
  case Nil
  then show ?case by simp
next
  case (Cons a as)
  let ?tx = "tx\<lparr>Traces := (Traces tx)[length xs := None]\<rparr>"
  have idx: "[length xs..<length xs + length (a # as)] =
      length xs # [length (xs @ [None])..<length (xs @ [None]) + length as]"
    by (simp add: upt_conv_Cons del: upt_Suc)
  have at: "Traces tx ! length xs = Some a"
    using Cons.prems by simp
  have tr': "Traces ?tx = (xs @ [None]) @ map Some as"
    using Cons.prems by simp
  have "release_loop [length xs..<length xs + length (a # as)] tx h =
      release_loop [length (xs @ [None])..<length (xs @ [None]) + length as] ?tx (clr a h)"
    unfolding idx by (simp add: at clr)
  also have "\<dots> = Inr (?tx\<lparr>Traces := (xs @ [None]) @ replicate (length as) None\<rparr>,
      fold clr as (clr a h))"
    by (rule Cons.IH [OF tr'])
  also have "\<dots> = Inr (tx\<lparr>Traces := xs @ replicate (length (a # as)) None\<rparr>,
      fold clr (a # as) h)"
    by simp
  finally show ?case .
qed

lemma fold_clear:
  fixes clr :: "addr \<Rightarrow> heap \<Rightarrow> heap"
  assumes c: "\<And>a h. cells (clr a h) = (cells h)(a := (cells h a)\<lparr>Steps :=
                  replicate (length (Steps (cells h a))) None\<rparr>)"
    and n: "\<And>a h. nxt (clr a h) = nxt h"
  shows "cells (fold clr as h) b =
     (if b \<in> set as then (cells h b)\<lparr>Steps := replicate (length (Steps (cells h b))) None\<rparr>
      else cells h b)"
    and "nxt (fold clr as h) = nxt h"
  by (induction as arbitrary: h) (auto simp: c n)

subsection \<open>Allocation\<close>

lemma allocated_iff:
  "allocated tx h \<longleftrightarrow> (\<forall>a. Some a \<in> set (Traces tx) \<longrightarrow> a < nxt h)"
  by (auto simp: allocated_def list_all_iff split: option.splits)

lemma NewTrace_eq:
  "NewTrace tx h =
     (nxt h, tx\<lparr>Traces := Traces tx @ [Some (nxt h)]\<rparr>,
      h\<lparr>cells := (cells h)(nxt h := zero_Trace), nxt := Suc (nxt h)\<rparr>)"
  by (simp add: NewTrace_def new_Trace_def zero_Trace_def)

text \<open>The functions keep every trace pointer of the record allocated.\<close>

lemma allocated_NewTxRecord: "allocated NewTxRecord h"
  by (simp add: allocated_def NewTxRecord_def)

lemma allocated_NewTrace:
  "allocated tx h \<Longrightarrow> NewTrace tx h = (p, tx', h') \<Longrightarrow> allocated tx' h'"
  by (auto simp: allocated_iff NewTrace_eq less_Suc_eq)

lemma any_exception_iff:
  "any_exception ts \<longleftrightarrow> (\<exists>t \<in> set ts. ErrorCode t \<noteq> NoException)"
  by (induction ts) auto

subsection \<open>The claims\<close>

text \<open>
  C6. On a sealed record the flag \<open>HasException\<close> is true if and only if the external
  status is a failure or a trace node of the record has a kind other than
  \<open>NoException\<close>. So a record with a failed status and no trace has the flag, and a
  record with a successful status whose nodes all have the kind \<open>NoException\<close> has
  not. \<open>Seal\<close> is the model of the specification's text.
\<close>

theorem Seal_HasException:
  "(HasException (Seal failed tx h) \<longleftrightarrow>
      failed (ExceptionalTx.StatusCode tx)
      \<or> (\<exists>t \<in> set (nodes tx h). ErrorCode t \<noteq> NoException))
   \<and> (failed (ExceptionalTx.StatusCode tx) \<and> Traces tx = []
        \<longrightarrow> HasException (Seal failed tx h))
   \<and> (\<not> failed (ExceptionalTx.StatusCode tx)
        \<and> (\<forall>t \<in> set (nodes tx h). ErrorCode t = NoException)
        \<longrightarrow> \<not> HasException (Seal failed tx h))"
  by (auto simp: Seal_def any_exception_iff)

theorem Seal_HasException_witness:
  "HasException (Seal (\<lambda>s. s = 0) NewTxRecord empty_heap)
   \<and> \<not> HasException (Seal (\<lambda>s. s = 0)
          (NewTxRecord\<lparr>ExceptionalTx.StatusCode := 1, Traces := [Some 0, Some 1]\<rparr>) empty_heap)"
proof -
  have 1: "(\<lambda>s::uint64. s = 0) (ExceptionalTx.StatusCode NewTxRecord) \<and> Traces NewTxRecord = []"
    by (simp add: NewTxRecord_def zero_ExceptionalTx_def)
  let ?tx = "NewTxRecord\<lparr>ExceptionalTx.StatusCode := 1, Traces := [Some 0, Some 1]\<rparr>"
  have 2: "\<not> (\<lambda>s::uint64. s = 0) (ExceptionalTx.StatusCode ?tx)
      \<and> (\<forall>t \<in> set (nodes ?tx empty_heap). ErrorCode t = NoException)"
    by (simp add: nodes_def empty_heap_def zero_Trace_def NoException_def)
  from 1 2 Seal_HasException [of "\<lambda>s. s = 0" NewTxRecord empty_heap]
    Seal_HasException [of "\<lambda>s. s = 0" ?tx empty_heap]
  show ?thesis by blast
qed

text \<open>
  C7. \<open>NewTrace\<close> appends one pointer at the end of \<open>Traces\<close>: the length grows by
  one, every earlier element keeps its place, and no other field of the record changes.
  The pointer returned is the one appended; the trace it points to is newly allocated,
  zeroed, and has no step; no other trace of the heap changes. A pointer allocated
  before the call (as every pointer of a record is in Go) therefore differs from the new
  one and points to an unchanged trace.
\<close>

theorem NewTrace_appends:
  assumes "NewTrace tx h = (p, tx', h')"
  shows "Traces tx' = Traces tx @ [Some p]
     \<and> length (Traces tx') = length (Traces tx) + 1
     \<and> (\<forall>i < length (Traces tx). Traces tx' ! i = Traces tx ! i)
     \<and> tx' = tx\<lparr>Traces := Traces tx'\<rparr>
     \<and> p = nxt h
     \<and> (\<forall>a. a \<noteq> p \<longrightarrow> cells h' a = cells h a)
     \<and> cells h' p = zero_Trace
     \<and> Steps (cells h' p) = [] \<and> length (Steps (cells h' p)) = 0
     \<and> (allocated tx h \<longrightarrow>
          Some p \<notin> set (Traces tx)
          \<and> (\<forall>i < length (Traces tx). \<forall>a. Traces tx ! i = Some a \<longrightarrow> cells h' a = cells h a)
          \<and> allocated tx' h')"
proof -
  from assms have p: "p = nxt h"
    and tx': "tx' = tx\<lparr>Traces := Traces tx @ [Some (nxt h)]\<rparr>"
    and h': "h' = h\<lparr>cells := (cells h)(nxt h := zero_Trace), nxt := Suc (nxt h)\<rparr>"
    by (auto simp: NewTrace_eq)
  have frame: "Traces tx' = Traces tx @ [Some p]
     \<and> length (Traces tx') = length (Traces tx) + 1
     \<and> (\<forall>i < length (Traces tx). Traces tx' ! i = Traces tx ! i)
     \<and> tx' = tx\<lparr>Traces := Traces tx'\<rparr>
     \<and> p = nxt h
     \<and> (\<forall>a. a \<noteq> p \<longrightarrow> cells h' a = cells h a)
     \<and> cells h' p = zero_Trace
     \<and> Steps (cells h' p) = [] \<and> length (Steps (cells h' p)) = 0"
    by (simp add: p tx' h' zero_Trace_def nth_append)
  have inv: "Some p \<notin> set (Traces tx)
      \<and> (\<forall>i < length (Traces tx). \<forall>a. Traces tx ! i = Some a \<longrightarrow> cells h' a = cells h a)
      \<and> allocated tx' h'" if al: "allocated tx h"
  proof -
    have old: "a \<noteq> nxt h" if "Some a \<in> set (Traces tx)" for a
      using al that by (auto simp: allocated_iff)
    have "cells h' a = cells h a" if "i < length (Traces tx)" and "Traces tx ! i = Some a" for i a
      using old [of a] nth_mem [OF that(1)] that(2) by (simp add: h')
    moreover have "Some p \<notin> set (Traces tx)"
      using old p by blast
    moreover have "allocated tx' h'"
      using al assms by (rule allocated_NewTrace)
    ultimately show ?thesis by blast
  qed
  from frame inv show ?thesis by blast
qed

theorem NewTrace_appends_witness:
  "allocated (NewTxRecord\<lparr>Traces := [Some 0]\<rparr>)
      \<lparr>cells = (\<lambda>a. zero_Trace)(0 := zero_Trace\<lparr>ErrorCode := ExplicitRevert\<rparr>), nxt = 1\<rparr>
   \<and> (\<exists>tx' h'. NewTrace (NewTxRecord\<lparr>Traces := [Some 0]\<rparr>)
          \<lparr>cells = (\<lambda>a. zero_Trace)(0 := zero_Trace\<lparr>ErrorCode := ExplicitRevert\<rparr>), nxt = 1\<rparr>
          = (1, tx', h')
        \<and> Traces tx' = [Some 0, Some 1]
        \<and> cells h' 0 = zero_Trace\<lparr>ErrorCode := ExplicitRevert\<rparr>
        \<and> Steps (cells h' 1) = [])"
proof -
  let ?tx = "NewTxRecord\<lparr>Traces := [Some 0]\<rparr>"
  let ?h = "\<lparr>cells = (\<lambda>a. zero_Trace)(0 := zero_Trace\<lparr>ErrorCode := ExplicitRevert\<rparr>), nxt = 1\<rparr>"
  have a: "allocated ?tx ?h" by (simp add: allocated_def)
  obtain tx' h' where e: "NewTrace ?tx ?h = (1, tx', h')"
    by (simp add: NewTrace_def new_Trace_def)
  note r = NewTrace_appends [OF e]
  from r have t: "Traces tx' = [Some 0, Some 1]" by simp
  from r a have "\<forall>i < length (Traces ?tx). \<forall>a. Traces ?tx ! i = Some a \<longrightarrow> cells h' a = cells ?h a"
    by blast
  then have c: "cells h' 0 = zero_Trace\<lparr>ErrorCode := ExplicitRevert\<rparr>" by simp
  from r have s: "Steps (cells h' 1) = []" by blast
  from a e t c s show ?thesis by blast
qed

text \<open>
  C8. \<open>NewTxRecord\<close> returns a record with no trace, with the flag \<open>HasException\<close>
  false and with its numeric fields zero. The record is a value of its own: it shares
  nothing with a record made before.
\<close>

theorem NewTxRecord_zeroed:
  "Traces NewTxRecord = [] \<and> length (Traces NewTxRecord) = 0
   \<and> \<not> HasException NewTxRecord
   \<and> BlockNum NewTxRecord = 0 \<and> TxIndex NewTxRecord = 0 \<and> Nonce NewTxRecord = 0
   \<and> NumSteps NewTxRecord = 0 \<and> ExceptionalTx.StatusCode NewTxRecord = 0
   \<and> ExceptionalTx.GasLimit NewTxRecord = 0"
  by (simp add: NewTxRecord_def zero_ExceptionalTx_def)

text \<open>
  C10, as the code has it. On a record whose trace pointers are all non-nil,
  \<open>ReleaseInternal\<close> ends without a panic; it sets every element of \<open>Traces\<close> to
  nil and keeps the length and every other field of the record; in every trace the
  record pointed to, every step pointer is nil, the number of steps and the other fields
  are kept; no other trace changes.
\<close>

theorem ReleaseInternal_clears:
  assumes "\<forall>p \<in> set (Traces tx). p \<noteq> None"
  shows "\<exists>tx' h'. ReleaseInternal tx h = Inr (tx', h')
     \<and> tx' = tx\<lparr>Traces := replicate (length (Traces tx)) None\<rparr>
     \<and> length (Traces tx') = length (Traces tx)
     \<and> BlockNum tx' = BlockNum tx \<and> TxHash tx' = TxHash tx
     \<and> ExceptionalTx.StatusCode tx' = ExceptionalTx.StatusCode tx
     \<and> NumSteps tx' = NumSteps tx \<and> HasException tx' = HasException tx
     \<and> (\<forall>a. Some a \<in> set (Traces tx) \<longrightarrow>
           cells h' a = (cells h a)\<lparr>Steps := replicate (length (Steps (cells h a))) None\<rparr>)
     \<and> (\<forall>a. Some a \<notin> set (Traces tx) \<longrightarrow> cells h' a = cells h a)
     \<and> nxt h' = nxt h"
proof -
  define as where "as = map the (Traces tx)"
  define clr where "clr = (\<lambda>a (h::heap). h\<lparr>cells := (cells h)(a := (cells h a)\<lparr>Steps :=
                  replicate (length (Steps (cells h a))) None\<rparr>)\<rparr>)"
  have "map Some (map the ps) = ps" if "\<forall>p \<in> set ps. p \<noteq> None" for ps :: "trace_ptr list"
    using that by (induction ps) auto
  then have tr: "Traces tx = [] @ map Some as"
    using assms by (simp add: as_def)
  have mem: "Some a \<in> set (Traces tx) \<longleftrightarrow> a \<in> set as" for a
    using tr by auto
  have len: "length (Traces tx) = length as" by (simp add: as_def)
  have run: "ReleaseInternal tx h =
      Inr (tx\<lparr>Traces := replicate (length (Traces tx)) None\<rparr>, fold clr as h)"
    using release_loop_run [of clr tx "[]" as h] tr
    by (simp add: ReleaseInternal_def len clr_def Trace_ReleaseInternal_def nil_steps_eq)
  have cl: "cells (fold clr as h) b =
     (if b \<in> set as then (cells h b)\<lparr>Steps := replicate (length (Steps (cells h b))) None\<rparr>
      else cells h b)" for b
    by (rule fold_clear) (simp_all add: clr_def)
  have nx: "nxt (fold clr as h) = nxt h"
    by (rule fold_clear [of clr]) (simp_all add: clr_def)
  show ?thesis
    unfolding run by (simp add: cl nx mem)
qed

theorem ReleaseInternal_clears_witness:
  "None \<notin> set [Some 0, Some (0::nat)]
   \<and> (\<exists>tx' h'. ReleaseInternal
          (NewTxRecord\<lparr>BlockNum := 7, HasException := True, Traces := [Some 0, Some 0]\<rparr>)
          \<lparr>cells = (\<lambda>a. zero_Trace)(0 := zero_Trace\<lparr>ErrorCode := RunOutOfGas,
              Steps := [Some \<lparr>StepNum = 1, PC = 0, Ins = ''PUSH1'', RemainingGas = 9\<rparr>, None]\<rparr>),
            nxt = 1\<rparr> = Inr (tx', h')
        \<and> Traces tx' = [None, None] \<and> BlockNum tx' = 7 \<and> HasException tx'
        \<and> Steps (cells h' 0) = [None, None] \<and> ErrorCode (cells h' 0) = RunOutOfGas)"
proof -
  let ?tx = "NewTxRecord\<lparr>BlockNum := 7, HasException := True, Traces := [Some 0, Some 0]\<rparr>"
  let ?h = "\<lparr>cells = (\<lambda>a. zero_Trace)(0 := zero_Trace\<lparr>ErrorCode := RunOutOfGas,
              Steps := [Some \<lparr>StepNum = 1, PC = 0, Ins = ''PUSH1'', RemainingGas = 9\<rparr>, None]\<rparr>),
            nxt = 1\<rparr>"
  have "\<forall>p \<in> set (Traces ?tx). p \<noteq> None" by simp
  from ReleaseInternal_clears [OF this, of ?h]
  obtain tx' h' where r: "ReleaseInternal ?tx ?h = Inr (tx', h')"
    and t: "tx' = ?tx\<lparr>Traces := replicate (length (Traces ?tx)) None\<rparr>"
    and c: "\<forall>a. Some a \<in> set (Traces ?tx) \<longrightarrow>
           cells h' a = (cells ?h a)\<lparr>Steps := replicate (length (Steps (cells ?h a))) None\<rparr>"
    by blast
  from t have 1: "Traces tx' = [None, None] \<and> BlockNum tx' = 7 \<and> HasException tx'"
    by (simp add: numeral_2_eq_2)
  from c have "cells h' 0 = (cells ?h 0)\<lparr>Steps := replicate (length (Steps (cells ?h 0))) None\<rparr>"
    by simp
  then have 2: "Steps (cells h' 0) = [None, None] \<and> ErrorCode (cells h' 0) = RunOutOfGas"
    by (simp add: numeral_2_eq_2)
  from r 1 2 show ?thesis by auto
qed

text \<open>
  The claim C10 as it is written fails on a record that holds a nil trace pointer: the
  loop calls \<^verbatim>\<open>p.ReleaseInternal()\<close> on it, which reads \<^verbatim>\<open>t.Steps\<close> through
  nil and panics. Such a record is what \<open>ReleaseInternal\<close> itself leaves: a second
  call on a record with a trace panics.
\<close>

theorem ReleaseInternal_twice_counterexample:
  "ReleaseInternal (NewTxRecord\<lparr>Traces := [None]\<rparr>) empty_heap = Inl NilPointerDereference
   \<and> (case NewTrace NewTxRecord empty_heap of
        (p, tx, h) \<Rightarrow>
          (case ReleaseInternal tx h of
             Inl e \<Rightarrow> False
           | Inr (tx1, h1) \<Rightarrow>
               Traces tx1 = [None] \<and> ReleaseInternal tx1 h1 = Inl NilPointerDereference))"
  by (simp add: ReleaseInternal_def Trace_ReleaseInternal_def NewTrace_def new_Trace_def
      NewTxRecord_def zero_ExceptionalTx_def empty_heap_def)

end
